theory Spec2Isabelle
  imports Main
begin

section \<open>Strings, dictionaries and the Python runtime\<close>

text \<open>
  A Python \<open>str\<close> is modelled as a \<open>string\<close> holding the UTF-8 bytes of the text. The
  only operations \<open>check_value_up.py\<close> uses on strings are concatenation, equality, the
  substring test \<open>a in b\<close>, \<open>startswith\<close>, \<open>split\<close>, \<open>lower\<close> and \<open>strip\<close>. UTF-8 is
  self-synchronising, so the first five act on the bytes as they act on the code points.

  \<open>str.lower\<close>, \<open>str.strip\<close> and \<open>strftime\<close> are decided by tables of the Python runtime
  (the Unicode case mapping, the Unicode white-space property, the calendar), and the
  type that \<open>pd.read_csv\<close> gives to the text of a cell is decided by pandas. None of
  these is part of the program. They are parameters of the model, collected in the
  record \<open>runtime\<close>; every general theorem holds for all of them. \<open>ascii\<close> is the instance
  used wherever a concrete input is evaluated. It agrees with Python on text whose
  cased letters and white space are ASCII, and with pandas on columns without empty
  cells whose cells are either all strings of at most 18 decimal digits (read as
  integers) or not all numbers (read as strings).
\<close>

text \<open>
  A cell of a pandas \<open>DataFrame\<close>. \<open>Str\<close> is a Python string. \<open>Parsed\<close> is any value that is
  not a string (an integer, a float, a missing value), given by the text that \<open>to_csv\<close>
  writes for it: two such values are duplicates of each other when they are written
  alike, and a value that is not a string is never the duplicate of a string.
\<close>

datatype cell = Str string | Parsed string

text \<open>
  \<open>parse_cell column text\<close> is the cell that \<open>pd.read_csv\<close> makes of \<open>text\<close> when it stands
  in a column holding the texts \<open>column\<close>.
\<close>

record runtime =
  lower :: "string \<Rightarrow> string"
  strip :: "string \<Rightarrow> string"
  strftime :: "string \<Rightarrow> int \<Rightarrow> string"
  parse_cell :: "string list \<Rightarrow> string \<Rightarrow> cell"

definition ascii_lower_char :: "char \<Rightarrow> char" where
  "ascii_lower_char c =
     (let n = (of_char c :: nat) in if 65 \<le> n \<and> n \<le> 90 then char_of (n + 32) else c)"

definition ascii_space :: "char \<Rightarrow> bool" where
  "ascii_space c = (let n = (of_char c :: nat) in (9 \<le> n \<and> n \<le> 13) \<or> (28 \<le> n \<and> n \<le> 32))"

definition ascii_strip :: "string \<Rightarrow> string" where
  "ascii_strip s = rev (dropWhile ascii_space (rev (dropWhile ascii_space s)))"

text \<open>
  A column of integers: every cell is a string of one to 18 decimal digits. pandas reads
  such a column as \<open>int64\<close> and writes an integer without leading zeros.
\<close>

definition integer_text :: "string \<Rightarrow> bool" where
  "integer_text s =
     (s \<noteq> [] \<and> length s \<le> 18 \<and>
      list_all (\<lambda>c. 48 \<le> (of_char c :: nat) \<and> (of_char c :: nat) \<le> 57) s)"

definition integer_written :: "string \<Rightarrow> string" where
  "integer_written s =
     (case dropWhile (\<lambda>c. c = CHR ''0'') s of [] \<Rightarrow> ''0'' | d # ds \<Rightarrow> d # ds)"

definition parse_integer_columns :: "string list \<Rightarrow> string \<Rightarrow> cell" where
  "parse_integer_columns column s =
     (if column \<noteq> [] \<and> list_all integer_text column
      then Parsed (integer_written s) else Str s)"

definition ascii :: runtime where
  "ascii = \<lparr> lower = map ascii_lower_char, strip = ascii_strip,
             strftime = (\<lambda>fmt t. fmt), parse_cell = parse_integer_columns \<rparr>"

text \<open>Python's \<open>sub in s\<close> on strings: \<open>sub\<close> occurs in \<open>s\<close> at some position.\<close>

fun startswith :: "string \<Rightarrow> string \<Rightarrow> bool" where
  "startswith s [] = True"
| "startswith [] (p # ps) = False"
| "startswith (c # cs) (p # ps) = (c = p \<and> startswith cs ps)"

fun str_in :: "string \<Rightarrow> string \<Rightarrow> bool" where
  "str_in sub [] = (sub = [])"
| "str_in sub (c # cs) = (startswith (c # cs) sub \<or> str_in sub cs)"

text \<open>
  A \<open>dict\<close> keeps its keys in insertion order; it is an association list without
  duplicate keys. \<open>d.get(k)\<close> is \<open>map_of d k\<close>; \<open>d[k] = v\<close> is \<open>dict_set\<close>, which overwrites
  the value of a key that is present where it stands and appends a new key at the end.
\<close>

type_synonym ('k, 'v) dict = "('k \<times> 'v) list"

fun dict_set :: "('k, 'v) dict \<Rightarrow> 'k \<Rightarrow> 'v \<Rightarrow> ('k, 'v) dict" where
  "dict_set [] k v = [(k, v)]"
| "dict_set ((k', v') # d) k v =
     (if k' = k then (k', v) # d else (k', v') # dict_set d k v)"

text \<open>\<open>d.get(k, default)\<close>.\<close>

definition get_or :: "('k, 'v) dict \<Rightarrow> 'k \<Rightarrow> 'v \<Rightarrow> 'v" where
  "get_or d k dflt = (case map_of d k of None \<Rightarrow> dflt | Some v \<Rightarrow> v)"

section \<open>Filing records and the classifier\<close>

text \<open>
  A filing is the JSON object of one entry of the \<open>list\<close> array of DART's \<open>list.json\<close>:
  a dictionary from field names to strings. A field may be missing.
\<close>

type_synonym filing = "(string, string) dict"

definition VALUE_UP_KEYWORDS :: "string list" where
  "VALUE_UP_KEYWORDS =
    [ [CHR 0xEA, CHR 0xB8, CHR 0xB0, CHR 0xEC, CHR 0x97, CHR 0x85, CHR 0xEA, CHR 0xB0, CHR 0x80,
       CHR 0xEC, CHR 0xB9, CHR 0x98, CHR 0xEC, CHR 0xA0, CHR 0x9C, CHR 0xEA, CHR 0xB3, CHR 0xA0],
      [CHR 0xEA, CHR 0xB8, CHR 0xB0, CHR 0xEC, CHR 0x97, CHR 0x85, CHR 0xEA, CHR 0xB0, CHR 0x80,
       CHR 0xEC, CHR 0xB9, CHR 0x98, CHR 0xEC, CHR 0xA0, CHR 0x9C, CHR 0xEA, CHR 0xB3, CHR 0xA0,
       CHR 0xEA, CHR 0xB3, CHR 0x84, CHR 0xED, CHR 0x9A, CHR 0x8D],
      [CHR 0xEB, CHR 0xB0, CHR 0xB8, CHR 0xEB, CHR 0xA5, CHR 0x98, CHR 0xEC, CHR 0x97, CHR 0x85],
      ''value up'',
      ''value-up'',
      [CHR 0xEA, CHR 0xB8, CHR 0xB0, CHR 0xEC, CHR 0x97, CHR 0x85, CHR 0xEA, CHR 0xB0, CHR 0x80,
       CHR 0xEC, CHR 0xB9, CHR 0x98, CHR 0x20, CHR 0xEC, CHR 0xA0, CHR 0x9C, CHR 0xEA, CHR 0xB3,
       CHR 0xA0] ]"

text \<open>
  \<open>filing.get("report_nm") or ""\<close>: the empty string when the field is missing (and
  when it is the empty string).
\<close>

definition report_nm_or_empty :: "filing \<Rightarrow> string" where
  "report_nm_or_empty filing = (case map_of filing ''report_nm'' of None \<Rightarrow> '''' | Some t \<Rightarrow> t)"

text \<open>The \<open>for kw in VALUE_UP_KEYWORDS\<close> loop of \<open>is_value_up_filing\<close>, with its early return.\<close>

fun any_keyword_in :: "runtime \<Rightarrow> string list \<Rightarrow> string \<Rightarrow> bool" where
  "any_keyword_in py [] title = False"
| "any_keyword_in py (kw # kws) title =
     (if str_in (lower py kw) title then True else any_keyword_in py kws title)"

definition is_value_up_filing :: "runtime \<Rightarrow> filing \<Rightarrow> bool" where
  "is_value_up_filing py filing =
     (let title = lower py (report_nm_or_empty filing)
      in any_keyword_in py VALUE_UP_KEYWORDS title)"

definition filing_url :: "filing \<Rightarrow> string" where
  "filing_url filing =
     (let rcp = get_or filing ''rcept_no'' ''''
      in ''https://dart.fss.or.kr/dsaf001/main.do?rcpNo='' @ rcp)"

section \<open>Resolving a company to its DART code\<close>

text \<open>
  \<open>_search_corp_map\<close> (the leading underscore is not an Isabelle name). The cache maps
  lower-cased names and stock codes to corp codes, in insertion order.
\<close>

fun first_partial :: "string \<Rightarrow> (string, string) dict \<Rightarrow> string option" where
  "first_partial q [] = None"
| "first_partial q ((key, code) # items) =
     (if str_in q key then Some code else first_partial q items)"

definition search_corp_map :: "runtime \<Rightarrow> (string, string) dict \<Rightarrow> string \<Rightarrow> string option" where
  "search_corp_map py corp_map query =
     (let q = lower py (strip py query)
      in case map_of corp_map q of
           Some code \<Rightarrow> Some code
         | None \<Rightarrow> first_partial q corp_map)"

text \<open>
  The loop of \<open>get_corp_code\<close> that builds the cache from the entries of the bulk
  listing. An entry carries the texts of its \<open>corp_name\<close>, \<open>corp_code\<close> and \<open>stock_code\<close>
  elements, \<open>None\<close> for an element that is missing (\<open>findtext(...) or ""\<close>).
\<close>

type_synonym listing_item = "string option \<times> string option \<times> string option"

definition text_or_empty :: "string option \<Rightarrow> string" where
  "text_or_empty t = (case t of None \<Rightarrow> '''' | Some s \<Rightarrow> s)"

fun build_corp_map ::
  "runtime \<Rightarrow> listing_item list \<Rightarrow> (string, string) dict \<Rightarrow> (string, string) dict" where
  "build_corp_map py [] corp_map = corp_map"
| "build_corp_map py ((n, c, s) # items) corp_map =
     (let name = strip py (text_or_empty n);
          code = strip py (text_or_empty c);
          stock_cd = strip py (text_or_empty s)
      in if code \<noteq> ''''
         then build_corp_map py items
                (dict_set (dict_set corp_map (lower py name) code) (lower py stock_cd) code)
         else build_corp_map py items corp_map)"

text \<open>
  The lookup policy in the words of the specification: the exact lower-cased key when
  present, otherwise the first entry whose key contains the (lower-cased) query,
  otherwise not found. It is compared with \<open>search_corp_map\<close> below.
\<close>

definition spec_resolve :: "runtime \<Rightarrow> (string, string) dict \<Rightarrow> string \<Rightarrow> string option" where
  "spec_resolve py corp_map query =
     (let q = lower py query
      in if q \<in> fst ` set corp_map then map_of corp_map q
         else map_option snd (find (\<lambda>(key, code). str_in q key) corp_map))"

definition acme_listing :: "listing_item list" where
  "acme_listing =
     [(Some ''Acme Corp'', Some ''00012345'', Some ''012345''),
      (Some ''Beta Inc'', Some ''00098765'', Some ''098765'')]"

section \<open>Configuration, the outside world and its effects\<close>

text \<open>The module-level settings read from the process environment when the script loads.\<close>

record config =
  DART_API_KEY :: string
  EMAIL_SENDER :: string
  EMAIL_PASSWORD :: string
  EMAIL_TO :: string
  SLACK_WEBHOOK :: string

datatype level = INFO | WARNING | ERROR

text \<open>
  What the program does to the outside world, in the order it does it. A \<open>Log\<close> event is
  one call of the logger; its string names the message (the formatted text is not
  modelled). \<open>Smtp_session\<close> and \<open>Post_slack\<close> are the two network deliveries; their last
  field tells whether the delivery went through (\<open>False\<close>: it raised).
\<close>

datatype event =
    Log level string
  | Read_companies_file
  | Read_seen_file
  | Write_seen_file "string set"
  | Read_cache_file
  | Write_cache_file
  | Get_corp_codes
  | Get_list string string string string
  | Read_ledger
  | Write_ledger
  | Smtp_session "string list" "filing list" bool
  | Post_slack "filing list" bool

text \<open>
  A row of the ledger with its seven columns: of strings in the CSV file, of cells in a
  \<open>DataFrame\<close>.
\<close>

record 'c csv_row =
  col_company :: 'c
  col_stock_code :: 'c
  col_report_title :: 'c
  col_filed_date :: 'c
  col_receipt_no :: 'c
  col_dart_url :: 'c
  col_checked_on :: 'c

text \<open>
  The files the program owns. \<open>seen_file\<close> is \<open>seen_filings.json\<close>, a JSON array read
  into a set and written from one, so it is kept as the set; \<open>cache_file\<close> is
  \<open>corp_codes.json\<close> with its modification time; \<open>csv_file\<close> is the text of
  \<open>value_up_filings.csv\<close>, row by row. \<open>None\<close> is a file that does not exist. \<open>trace\<close>
  collects the events.
\<close>

record world =
  seen_file :: "string set option"
  cache_file :: "((string, string) dict \<times> int) option"
  csv_file :: "string csv_row list option"
  trace :: "event list"

text \<open>
  The answer to one \<open>list.json\<close> request. \<open>Raises\<close>: \<open>requests.get\<close>, \<open>raise_for_status\<close>,
  \<open>resp.json()\<close> or the handling of the body raises an \<open>Exception\<close>. \<open>Body\<close>: the JSON
  object, with the fields the program reads when they are present.
\<close>

record body =
  status :: "string option"
  entries :: "filing list option"
  message :: "string option"

datatype response = Raises | Body body

text \<open>
  The surroundings of one run, which the program does not control: the clock (seconds),
  the lines of \<open>companies.txt\<close> when it exists, the parsed entries of \<open>corpCode.xml\<close>
  (\<open>None\<close>: the download, the unzipping or the XML parser raises), the answers of
  \<open>list.json\<close> by corp code, dates and category, whether the SMTP session and the
  webhook post go through, and whether pandas can read and deduplicate the existing
  ledger and write the new one.
\<close>

record env =
  now :: int
  companies_file :: "string list option"
  corp_code_xml :: "listing_item list option"
  list_json :: "string \<Rightarrow> string \<Rightarrow> string \<Rightarrow> string \<Rightarrow> response"
  smtp_ok :: bool
  slack_ok :: bool
  ledger_readable :: bool
  ledger_writable :: bool

text \<open>The exceptions that leave a function of the program.\<close>

datatype exn = KeyError string | Download_failed | Ledger_read_failed | Ledger_write_failed

text \<open>A call either raises, leaving the world as it was at that moment, or returns.\<close>

type_synonym 'r result = "(exn \<times> world) + 'r"

definition emit :: "event \<Rightarrow> world \<Rightarrow> world" where
  "emit e w = w\<lparr>trace := trace w @ [e]\<rparr>"

definition final_world :: "world result \<Rightarrow> world" where
  "final_world r = (case r of Inl (e, w) \<Rightarrow> w | Inr w \<Rightarrow> w)"

section \<open>\<open>get_corp_code\<close>\<close>

definition week :: int where
  "week = 7 * 86400"

definition fresh_cache :: "env \<Rightarrow> world \<Rightarrow> (string, string) dict option" where
  "fresh_cache env w =
     (case cache_file w of
        None \<Rightarrow> None
      | Some (corp_map, mtime) \<Rightarrow> if now env - mtime < week then Some corp_map else None)"

definition get_corp_code ::
  "runtime \<Rightarrow> env \<Rightarrow> string \<Rightarrow> world \<Rightarrow> (string option \<times> world) result" where
  "get_corp_code py env company w =
     (case fresh_cache env w of
        Some corp_map \<Rightarrow> Inr (search_corp_map py corp_map company, emit Read_cache_file w)
      | None \<Rightarrow>
          (let w1 = emit Get_corp_codes (emit (Log INFO ''Downloading company list from DART'') w)
           in case corp_code_xml env of
                None \<Rightarrow> Inl (Download_failed, w1)
              | Some items \<Rightarrow>
                  (let corp_map = build_corp_map py items [];
                       w2 = emit Write_cache_file (w1\<lparr>cache_file := Some (corp_map, now env)\<rparr>);
                       w3 = emit (Log INFO ''Cached companies'') w2
                   in Inr (search_corp_map py corp_map company, w3))))"

section \<open>\<open>search_filings\<close>\<close>

text \<open>The body of the \<open>for pblntf_ty in ["A", "B"]\<close> loop, and the loop.\<close>

fun query_categories ::
  "env \<Rightarrow> string \<Rightarrow> string \<Rightarrow> string \<Rightarrow> string list \<Rightarrow> filing list \<times> world
     \<Rightarrow> filing list \<times> world" where
  "query_categories env corp_code bgn_de end_de [] (all_filings, w) = (all_filings, w)"
| "query_categories env corp_code bgn_de end_de (pblntf_ty # tys) (all_filings, w) =
     (let w1 = emit (Get_list corp_code bgn_de end_de pblntf_ty) w
      in query_categories env corp_code bgn_de end_de tys
           (case list_json env corp_code bgn_de end_de pblntf_ty of
              Raises \<Rightarrow> (all_filings, emit (Log ERROR ''Error searching filings'') w1)
            | Body data \<Rightarrow>
                if status data = Some ''000''
                then (all_filings @ (case entries data of None \<Rightarrow> [] | Some l \<Rightarrow> l), w1)
                else if status data = Some ''013''
                then (all_filings, w1)
                else (all_filings, emit (Log WARNING ''DART API returned status'') w1)))"

definition search_filings ::
  "env \<Rightarrow> string \<Rightarrow> string \<Rightarrow> string \<Rightarrow> world \<Rightarrow> filing list \<times> world" where
  "search_filings env corp_code bgn_de end_de w =
     query_categories env corp_code bgn_de end_de [''A'', ''B''] ([], w)"

section \<open>The Seen Set\<close>

definition load_seen :: "world \<Rightarrow> string set \<times> world" where
  "load_seen w =
     (case seen_file w of
        Some ids \<Rightarrow> (ids, emit Read_seen_file w)
      | None \<Rightarrow> ({}, w))"

definition save_seen :: "string set \<Rightarrow> world \<Rightarrow> world" where
  "save_seen seen w = emit (Write_seen_file seen) (w\<lparr>seen_file := Some seen\<rparr>)"

section \<open>The three sinks\<close>

text \<open>
  \<open>f['corp_name']\<close>, \<open>f['report_nm']\<close>, \<open>f['rcept_dt']\<close>, in this order, for each filing in
  turn: the subscripts of the loops that format the e-mail rows and the chat blocks.
  The first missing key raises \<open>KeyError\<close>.
\<close>

fun subscripts :: "filing list \<Rightarrow> string option" where
  "subscripts [] = None"
| "subscripts (f # fs) =
     (if map_of f ''corp_name'' = None then Some ''corp_name''
      else if map_of f ''report_nm'' = None then Some ''report_nm''
      else if map_of f ''rcept_dt'' = None then Some ''rcept_dt''
      else subscripts fs)"

text \<open>\<open>s.split(sep)\<close> for a separator of one character.\<close>

fun split_on :: "char \<Rightarrow> string \<Rightarrow> string list" where
  "split_on sep [] = [[]]"
| "split_on sep (c # cs) =
     (if c = sep then [] # split_on sep cs
      else (case split_on sep cs of
              [] \<Rightarrow> [[c]]
            | part # parts \<Rightarrow> (c # part) # parts))"

definition send_email ::
  "runtime \<Rightarrow> config \<Rightarrow> env \<Rightarrow> filing list \<Rightarrow> world \<Rightarrow> world result" where
  "send_email py cfg env new_filings w =
     (if \<not> (EMAIL_SENDER cfg \<noteq> '''' \<and> EMAIL_PASSWORD cfg \<noteq> '''' \<and> EMAIL_TO cfg \<noteq> '''')
      then Inr (emit (Log INFO ''Email not configured - skipping'') w)
      else
        (let recipients = map (strip py) (split_on CHR '','' (EMAIL_TO cfg))
         in case subscripts new_filings of
              Some key \<Rightarrow> Inl (KeyError key, w)
            | None \<Rightarrow>
                (let w1 = emit (Smtp_session recipients new_filings (smtp_ok env)) w
                 in if smtp_ok env
                    then Inr (emit (Log INFO ''Email sent'') w1)
                    else Inr (emit (Log ERROR ''Failed to send email'') w1))))"

definition send_slack ::
  "config \<Rightarrow> env \<Rightarrow> filing list \<Rightarrow> world \<Rightarrow> world result" where
  "send_slack cfg env new_filings w =
     (if SLACK_WEBHOOK cfg = '''' then Inr w
      else
        (case subscripts new_filings of
           Some key \<Rightarrow> Inl (KeyError key, w)
         | None \<Rightarrow>
             (let w1 = emit (Post_slack new_filings (slack_ok env)) w
              in if slack_ok env
                 then Inr (emit (Log INFO ''Slack notification sent'') w1)
                 else Inr (emit (Log ERROR ''Failed to send Slack message'') w1))))"

text \<open>
  \<open>DataFrame.drop_duplicates(subset=[key])\<close>: of the rows that agree on the key, the
  first stays.
\<close>

fun drop_duplicates :: "('r \<Rightarrow> 'k) \<Rightarrow> 'r list \<Rightarrow> 'r list" where
  "drop_duplicates key [] = []"
| "drop_duplicates key (r # rs) = r # drop_duplicates key (filter (\<lambda>x. key x \<noteq> key r) rs)"

definition new_row :: "runtime \<Rightarrow> env \<Rightarrow> filing \<Rightarrow> cell csv_row" where
  "new_row py env f =
     \<lparr> col_company = Str (get_or f ''corp_name'' ''''),
       col_stock_code = Str (get_or f ''stock_code'' ''''),
       col_report_title = Str (get_or f ''report_nm'' ''''),
       col_filed_date = Str (get_or f ''rcept_dt'' ''''),
       col_receipt_no = Str (get_or f ''rcept_no'' ''''),
       col_dart_url = Str (filing_url f),
       col_checked_on = Str (strftime py ''%Y-%m-%d'' (now env)) \<rparr>"

text \<open>
  \<open>pd.read_csv\<close>: every cell of the file is typed by pandas, column by column.
  \<open>DataFrame.to_csv(index=False)\<close>: every cell is written as its text.
\<close>

definition read_csv :: "runtime \<Rightarrow> string csv_row list \<Rightarrow> cell csv_row list" where
  "read_csv py rows =
     map (\<lambda>r.
       \<lparr> col_company = parse_cell py (map col_company rows) (col_company r),
         col_stock_code = parse_cell py (map col_stock_code rows) (col_stock_code r),
         col_report_title = parse_cell py (map col_report_title rows) (col_report_title r),
         col_filed_date = parse_cell py (map col_filed_date rows) (col_filed_date r),
         col_receipt_no = parse_cell py (map col_receipt_no rows) (col_receipt_no r),
         col_dart_url = parse_cell py (map col_dart_url rows) (col_dart_url r),
         col_checked_on = parse_cell py (map col_checked_on rows) (col_checked_on r) \<rparr>) rows"

definition cell_text :: "cell \<Rightarrow> string" where
  "cell_text c = (case c of Str s \<Rightarrow> s | Parsed t \<Rightarrow> t)"

definition to_csv :: "cell csv_row list \<Rightarrow> string csv_row list" where
  "to_csv df =
     map (\<lambda>r.
       \<lparr> col_company = cell_text (col_company r),
         col_stock_code = cell_text (col_stock_code r),
         col_report_title = cell_text (col_report_title r),
         col_filed_date = cell_text (col_filed_date r),
         col_receipt_no = cell_text (col_receipt_no r),
         col_dart_url = cell_text (col_dart_url r),
         col_checked_on = cell_text (col_checked_on r) \<rparr>) df"

text \<open>
  \<open>save_to_csv\<close> has no \<open>try\<close>: what \<open>pd.read_csv\<close>, \<open>pd.concat\<close>, \<open>drop_duplicates\<close> or
  \<open>to_csv\<close> raise leaves the function. The rows of \<open>df_new\<close> hold the strings of the
  filings; the rows of \<open>df_existing\<close> hold what \<open>pd.read_csv\<close> made of the file.
\<close>

definition save_to_csv ::
  "runtime \<Rightarrow> env \<Rightarrow> filing list \<Rightarrow> world \<Rightarrow> world result" where
  "save_to_csv py env new_filings w =
     (let df_new = map (new_row py env) new_filings;
          read = (case csv_file w of
                    Some text \<Rightarrow>
                      (let w1 = emit Read_ledger w
                       in if ledger_readable env
                          then (let df_existing = read_csv py text
                                in Inr (drop_duplicates col_receipt_no (df_existing @ df_new), w1))
                          else Inl (Ledger_read_failed, w1))
                  | None \<Rightarrow> Inr (df_new, w))
      in case read of
           Inl err \<Rightarrow> Inl err
         | Inr (df_all, w1) \<Rightarrow>
             (let w2 = emit Write_ledger w1
              in if ledger_writable env
                 then Inr (emit (Log INFO ''Saved new rows'')
                             (w2\<lparr>csv_file := Some (to_csv df_all)\<rparr>))
                 else Inl (Ledger_write_failed, w2)))"

section \<open>The run\<close>

definition builtin_companies :: "string list" where
  "builtin_companies =
     [ [CHR 0xEC, CHR 0x82, CHR 0xBC, CHR 0xEC, CHR 0x84, CHR 0xB1, CHR 0xEC, CHR 0xA0, CHR 0x84,
        CHR 0xEC, CHR 0x9E, CHR 0x90],
       ''005930'',
       [CHR 0xED, CHR 0x98, CHR 0x84, CHR 0xEB, CHR 0x8C, CHR 0x80, CHR 0xEC, CHR 0xB0, CHR 0xA8],
       [CHR 0x50, CHR 0x4F, CHR 0x53, CHR 0x43, CHR 0x4F, CHR 0xED, CHR 0x99, CHR 0x80, CHR 0xEB,
        CHR 0x94, CHR 0xA9, CHR 0xEC, CHR 0x8A, CHR 0xA4] ]"

definition load_companies :: "runtime \<Rightarrow> env \<Rightarrow> world \<Rightarrow> string list \<times> world" where
  "load_companies py env w =
     (case companies_file env of
        None \<Rightarrow>
          (builtin_companies,
           emit (Log WARNING ''companies.txt not found - using built-in example list'') w)
      | Some lines \<Rightarrow>
          (filter (\<lambda>line. line \<noteq> '''' \<and> \<not> startswith line ''#'') (map (strip py) lines),
           emit Read_companies_file w))"

text \<open>
  The \<open>for filing in filings\<close> loop of \<open>run\<close>. Its state is the Seen Set, the list of new
  filings and the world.
\<close>

type_synonym progress = "string set \<times> filing list \<times> world"

fun check_filings :: "runtime \<Rightarrow> filing list \<Rightarrow> progress \<Rightarrow> progress" where
  "check_filings py [] (seen, new_filings, w) = (seen, new_filings, w)"
| "check_filings py (filing # rest) (seen, new_filings, w) =
     (let rcept_no = get_or filing ''rcept_no'' '''';
          w1 = emit (Log INFO ''filing'') w
      in if rcept_no \<in> seen
         then check_filings py rest (seen, new_filings, emit (Log INFO ''already seen - skipping'') w1)
         else if is_value_up_filing py filing
         then check_filings py rest
                (insert rcept_no seen, new_filings @ [filing],
                 emit (Log INFO ''NEW value-up filing'') w1)
         else check_filings py rest (insert rcept_no seen, new_filings, w1))"

text \<open>The \<open>for company in companies\<close> loop of \<open>run\<close>.\<close>

fun check_companies ::
  "runtime \<Rightarrow> env \<Rightarrow> string \<Rightarrow> string \<Rightarrow> string list \<Rightarrow> progress
     \<Rightarrow> progress result" where
  "check_companies py env bgn_de end_de [] (seen, new_filings, w) = Inr (seen, new_filings, w)"
| "check_companies py env bgn_de end_de (company # rest) (seen, new_filings, w) =
     (case get_corp_code py env company w of
        Inl err \<Rightarrow> Inl err
      | Inr (corp_code, w1) \<Rightarrow>
          (case (if corp_code = Some '''' then None else corp_code) of
             None \<Rightarrow>
               check_companies py env bgn_de end_de rest
                 (seen, new_filings, emit (Log WARNING ''Could not find DART corp code'') w1)
           | Some code \<Rightarrow>
               (let w2 = emit (Log INFO ''Checking company'') w1;
                    (filings, w3) = search_filings env code bgn_de end_de w2;
                    w4 = emit (Log INFO ''filings returned from DART'') w3
                in check_companies py env bgn_de end_de rest
                     (check_filings py filings (seen, new_filings, w4)))))"

text \<open>
  \<open>run\<close> from \<open>load_companies()\<close> to the end of the loop over the companies: it returns
  the Seen Set and the list \<open>new_filings\<close> as they stand before \<open>save_seen\<close>.
\<close>

definition collect :: "runtime \<Rightarrow> env \<Rightarrow> world \<Rightarrow> progress result" where
  "collect py env w =
     (let (companies, w1) = load_companies py env w;
          w2 = emit (Log INFO ''Monitoring companies'') w1;
          (seen, w3) = load_seen w2;
          end_de = strftime py ''%Y%m%d'' (now env);
          bgn_de = strftime py ''%Y%m%d'' (now env - 90 * 86400)
      in check_companies py env bgn_de end_de companies (seen, [], w3))"

text \<open>\<open>run\<close> from \<open>if new_filings:\<close> to its last line.\<close>

definition notify ::
  "runtime \<Rightarrow> config \<Rightarrow> env \<Rightarrow> filing list \<Rightarrow> world \<Rightarrow> world result" where
  "notify py cfg env new_filings w =
     (if new_filings \<noteq> []
      then
        (case save_to_csv py env new_filings (emit (Log INFO ''Found new value-up filings'') w) of
           Inl err \<Rightarrow> Inl err
         | Inr w1 \<Rightarrow>
             (case send_email py cfg env new_filings w1 of
                Inl err \<Rightarrow> Inl err
              | Inr w2 \<Rightarrow>
                  (case send_slack cfg env new_filings w2 of
                     Inl err \<Rightarrow> Inl err
                   | Inr w3 \<Rightarrow> Inr (emit (Log INFO ''Done'') w3))))
      else Inr (emit (Log INFO ''Done'')
                  (emit (Log INFO ''No new value-up plan filings found this week'') w)))"

text \<open>The three lines that \<open>run\<close> logs first.\<close>

definition started :: "world \<Rightarrow> world" where
  "started w = emit (Log INFO ''='') (emit (Log INFO ''starting run'') (emit (Log INFO ''='') w))"

definition run :: "runtime \<Rightarrow> config \<Rightarrow> env \<Rightarrow> world \<Rightarrow> world result" where
  "run py cfg env w =
     (let w1 = started w
      in if DART_API_KEY cfg = ''YOUR_DART_API_KEY_HERE''
         then Inr (emit (Log ERROR ''Please set your DART_API_KEY'') w1)
         else
           (case collect py env w1 of
              Inl err \<Rightarrow> Inl err
            | Inr (seen, new_filings, w2) \<Rightarrow> notify py cfg env new_filings (save_seen seen w2)))"

section \<open>Notions used to state the properties\<close>

text \<open>The key under which \<open>run\<close> records a filing in the Seen Set: \<open>filing.get("rcept_no", "")\<close>.\<close>

definition receipt_id :: "filing \<Rightarrow> string" where
  "receipt_id filing = get_or filing ''rcept_no'' ''''"

text \<open>
  The filings of \<open>fs\<close> whose receipt identifier is not in \<open>S\<close> and whose title matches, as
  the specification describes the new matches of a run.
\<close>

definition claimed_new_matches :: "runtime \<Rightarrow> string set \<Rightarrow> filing list \<Rightarrow> filing list" where
  "claimed_new_matches py S fs =
     filter (\<lambda>f. receipt_id f \<notin> S \<and> is_value_up_filing py f) fs"

text \<open>
  The same, with one more condition: the identifier is not that of a filing standing
  earlier in \<open>fs\<close> either.
\<close>

definition first_unseen_matches :: "runtime \<Rightarrow> string set \<Rightarrow> filing list \<Rightarrow> filing list" where
  "first_unseen_matches py S fs =
     map (\<lambda>i. fs ! i)
       (filter (\<lambda>i. receipt_id (fs ! i) \<notin> S
                  \<and> receipt_id (fs ! i) \<notin> receipt_id ` set (take i fs)
                  \<and> is_value_up_filing py (fs ! i))
          [0..<length fs])"

text \<open>
  The filing records that \<open>search_filings\<close> returns during the loop over the companies,
  one company after the other: the same calls as \<open>check_companies\<close>, keeping what the
  fetcher returned.
\<close>

fun fetched ::
  "runtime \<Rightarrow> env \<Rightarrow> string \<Rightarrow> string \<Rightarrow> string list \<Rightarrow> progress \<Rightarrow> filing list" where
  "fetched py env bgn_de end_de [] (seen, new_filings, w) = []"
| "fetched py env bgn_de end_de (company # rest) (seen, new_filings, w) =
     (case get_corp_code py env company w of
        Inl err \<Rightarrow> []
      | Inr (corp_code, w1) \<Rightarrow>
          (case (if corp_code = Some '''' then None else corp_code) of
             None \<Rightarrow>
               fetched py env bgn_de end_de rest
                 (seen, new_filings, emit (Log WARNING ''Could not find DART corp code'') w1)
           | Some code \<Rightarrow>
               (let w2 = emit (Log INFO ''Checking company'') w1;
                    (filings, w3) = search_filings env code bgn_de end_de w2;
                    w4 = emit (Log INFO ''filings returned from DART'') w3
                in filings @ fetched py env bgn_de end_de rest
                     (check_filings py filings (seen, new_filings, w4)))))"

definition fetched_in_run :: "runtime \<Rightarrow> env \<Rightarrow> world \<Rightarrow> filing list" where
  "fetched_in_run py env w =
     (let (companies, w1) = load_companies py env w;
          w2 = emit (Log INFO ''Monitoring companies'') w1;
          (seen, w3) = load_seen w2;
          end_de = strftime py ''%Y%m%d'' (now env);
          bgn_de = strftime py ''%Y%m%d'' (now env - 90 * 86400)
      in fetched py env bgn_de end_de companies (seen, [], w3))"

text \<open>The Seen Set that a run starting in \<open>w\<close> loads.\<close>

definition loaded_seen :: "world \<Rightarrow> string set" where
  "loaded_seen w = (case seen_file w of None \<Rightarrow> {} | Some ids \<Rightarrow> ids)"

section \<open>A small concrete setting\<close>

text \<open>
  One company, \<open>Acme Corp\<close>, resolved through the bulk listing; the regular category
  answers with the given filings and the voluntary one with "no results".
\<close>

definition demo_filing :: "string \<Rightarrow> string \<Rightarrow> filing" where
  "demo_filing rcept title =
     [(''corp_name'', ''Acme Corp''), (''report_nm'', title),
      (''rcept_dt'', ''20240102''), (''rcept_no'', rcept)]"

definition demo_config :: config where
  "demo_config =
     \<lparr> DART_API_KEY = ''0123456789abcdef'', EMAIL_SENDER = ''bot@example.org'',
       EMAIL_PASSWORD = ''secret'', EMAIL_TO = ''ops@example.org'',
       SLACK_WEBHOOK = ''https://hooks.example.org/T0'' \<rparr>"

definition demo_env :: "filing list \<Rightarrow> env" where
  "demo_env fs =
     \<lparr> now = 1000000, companies_file = Some [''Acme Corp''],
       corp_code_xml = Some acme_listing,
       list_json = (\<lambda>corp_code bgn_de end_de ty.
          if ty = ''A''
          then Body \<lparr> status = Some ''000'', entries = Some fs, message = None \<rparr>
          else Body \<lparr> status = Some ''013'', entries = None, message = None \<rparr>),
       smtp_ok = True, slack_ok = True, ledger_readable = True, ledger_writable = True \<rparr>"

definition demo_world :: "string set option \<Rightarrow> world" where
  "demo_world ids = \<lparr> seen_file = ids, cache_file = None, csv_file = None, trace = [] \<rparr>"

definition demo_no_receipt :: "string \<Rightarrow> filing" where
  "demo_no_receipt title =
     [(''corp_name'', ''Acme Corp''), (''report_nm'', title), (''rcept_dt'', ''20240102'')]"

definition spec_example :: "filing list" where
  "spec_example =
     [demo_filing ''A1'' ''Annual Report'', demo_filing ''A2'' ''Quarterly Report'',
      demo_filing ''A3'' ''Corporate Value-Up Plan'']"

definition no_receipt_example :: "filing list" where
  "no_receipt_example =
     [demo_no_receipt ''Quarterly Report'', demo_no_receipt ''Corporate Value-Up Plan'']"

text \<open>
  What one disclosure category contributes to the result of \<open>search_filings\<close>, and the
  events of its query, read off the answer to that one request.
\<close>

definition category_filings :: "env \<Rightarrow> string \<Rightarrow> string \<Rightarrow> string \<Rightarrow> string \<Rightarrow> filing list" where
  "category_filings env corp_code bgn_de end_de ty =
     (case list_json env corp_code bgn_de end_de ty of
        Raises \<Rightarrow> []
      | Body data \<Rightarrow>
          if status data = Some ''000''
          then (case entries data of None \<Rightarrow> [] | Some l \<Rightarrow> l)
          else [])"

definition category_events :: "env \<Rightarrow> string \<Rightarrow> string \<Rightarrow> string \<Rightarrow> string \<Rightarrow> event list" where
  "category_events env corp_code bgn_de end_de ty =
     Get_list corp_code bgn_de end_de ty #
     (case list_json env corp_code bgn_de end_de ty of
        Raises \<Rightarrow> [Log ERROR ''Error searching filings'']
      | Body data \<Rightarrow>
          if status data = Some ''000'' \<or> status data = Some ''013'' then []
          else [Log WARNING ''DART API returned status''])"

text \<open>
  Two settings in which the query of the regular category fails, by an exception and by
  an error status, while the voluntary category answers with three filings.
\<close>

definition flaky_env :: env where
  "flaky_env =
     (demo_env [])\<lparr> list_json := (\<lambda>corp_code bgn_de end_de ty.
        if ty = ''A'' then Raises
        else Body \<lparr> status = Some ''000'', entries = Some spec_example, message = None \<rparr>) \<rparr>"

definition failing_env :: env where
  "failing_env =
     (demo_env [])\<lparr> list_json := (\<lambda>corp_code bgn_de end_de ty.
        if ty = ''A''
        then Body \<lparr> status = Some ''020'', entries = None, message = Some ''limit'' \<rparr>
        else Body \<lparr> status = Some ''000'', entries = Some spec_example, message = None \<rparr>) \<rparr>"

text \<open>The cache built from the two entries of the example listing.\<close>

definition acme_cache :: "(string, string) dict" where
  "acme_cache = build_corp_map ascii acme_listing []"

text \<open>A filing record that lacks the receipt identifier.\<close>

definition no_receipt :: "filing \<Rightarrow> bool" where
  "no_receipt filing = (map_of filing ''rcept_no'' = None)"

text \<open>The same company listed twice, by its name and by its stock code.\<close>

definition twice_env :: env where
  "twice_env =
     (demo_env [demo_filing ''A3'' ''Corporate Value-Up Plan''])
       \<lparr> companies_file := Some [''Acme Corp'', ''012345''] \<rparr>"

text \<open>The rows of the ledger file; none when the file does not exist.\<close>

definition ledger :: "world \<Rightarrow> string csv_row list" where
  "ledger w = (case csv_file w of None \<Rightarrow> [] | Some rows \<Rightarrow> rows)"

text \<open>
  The events that hand filings to the e-mail or the chat service, the filings that an
  event delivers by e-mail and by chat (none when the delivery raised), and the filings
  that a trace delivers.
\<close>

fun is_notification :: "event \<Rightarrow> bool" where
  "is_notification (Smtp_session recipients fs ok) = True"
| "is_notification (Post_slack fs ok) = True"
| "is_notification e = False"

fun emailed_by :: "event \<Rightarrow> filing list" where
  "emailed_by (Smtp_session recipients fs ok) = (if ok then fs else [])"
| "emailed_by e = []"

fun posted_by :: "event \<Rightarrow> filing list" where
  "posted_by (Post_slack fs ok) = (if ok then fs else [])"
| "posted_by e = []"

definition emailed :: "event list \<Rightarrow> filing list" where
  "emailed tr = concat (map emailed_by tr)"

definition posted :: "event list \<Rightarrow> filing list" where
  "posted tr = concat (map posted_by tr)"

text \<open>From \<open>w\<close> to \<open>w'\<close> the trace has only grown, and by no notification.\<close>

definition quiet :: "world \<Rightarrow> world \<Rightarrow> bool" where
  "quiet w w' \<longleftrightarrow> (\<exists>evs. trace w' = trace w @ evs \<and> (\<forall>e \<in> set evs. \<not> is_notification e))"

text \<open>One matching filing; a setting where the SMTP session fails and one where the ledger cannot be written.\<close>

definition value_up_a3 :: filing where
  "value_up_a3 = demo_filing ''A3'' ''Corporate Value-Up Plan''"


definition read_only_env :: env where
  "read_only_env = (demo_env [value_up_a3])\<lparr> ledger_writable := False \<rparr>"

text \<open>The events of the chat sink when it does not raise.\<close>

definition chat_events :: "config \<Rightarrow> env \<Rightarrow> filing list \<Rightarrow> event list" where
  "chat_events cfg env fs =
     (if SLACK_WEBHOOK cfg = '''' then []
      else [Post_slack fs (slack_ok env),
            if slack_ok env then Log INFO ''Slack notification sent''
            else Log ERROR ''Failed to send Slack message''])"

text \<open>The demo settings with the e-mail password left empty.\<close>

definition no_password_config :: config where
  "no_password_config = demo_config\<lparr> EMAIL_PASSWORD := '''' \<rparr>"





text \<open>
  A filing as DART returns it, with a receipt number of 14 digits, and a filing without
  \<open>corp_name\<close>.
\<close>

definition dart_filing :: filing where
  "dart_filing =
     [(''corp_code'', ''00012345''), (''corp_name'', ''Acme Corp''), (''stock_code'', ''012345''),
      (''report_nm'', ''Corporate Value-Up Plan''), (''rcept_no'', ''20240102000123''),
      (''rcept_dt'', ''20240102'')]"

definition no_name_filing :: filing where
  "no_name_filing =
     [(''report_nm'', ''Corporate Value-Up Plan''), (''rcept_dt'', ''20240102''),
      (''rcept_no'', ''A5'')]"

section \<open>Properties of the string and dictionary operations\<close>

lemma startswith_iff: "startswith s p \<longleftrightarrow> (\<exists>post. s = p @ post)"
  by (induction s p rule: startswith.induct) auto

lemma str_in_iff: "str_in sub s \<longleftrightarrow> (\<exists>pre post. s = pre @ sub @ post)"
proof (induction s)
  case Nil
  then show ?case by auto
next
  case (Cons c cs)
  have "(\<exists>pre post. c # cs = pre @ sub @ post) \<longleftrightarrow>
        (\<exists>post. c # cs = sub @ post) \<or> (\<exists>pre post. cs = pre @ sub @ post)"
  proof
    assume "\<exists>pre post. c # cs = pre @ sub @ post"
    then obtain pre post where e: "c # cs = pre @ sub @ post" by blast
    show "(\<exists>post. c # cs = sub @ post) \<or> (\<exists>pre post. cs = pre @ sub @ post)"
    proof (cases pre)
      case Nil
      with e show ?thesis by auto
    next
      case (Cons p pre')
      with e have "cs = pre' @ sub @ post" by simp
      then show ?thesis by blast
    qed
  next
    assume "(\<exists>post. c # cs = sub @ post) \<or> (\<exists>pre post. cs = pre @ sub @ post)"
    then show "\<exists>pre post. c # cs = pre @ sub @ post"
    proof
      assume "\<exists>post. c # cs = sub @ post"
      then obtain post where "c # cs = [] @ sub @ post" by auto
      then show ?thesis by blast
    next
      assume "\<exists>pre post. cs = pre @ sub @ post"
      then obtain pre post where "c # cs = (c # pre) @ sub @ post" by auto
      then show ?thesis by blast
    qed
  qed
  with Cons show ?case by (simp add: startswith_iff)
qed

lemma any_keyword_in_iff:
  "any_keyword_in py kws title \<longleftrightarrow> (\<exists>kw \<in> set kws. str_in (lower py kw) title)"
  by (induction kws) auto

lemma first_partial_find:
  "first_partial q d = map_option snd (find (\<lambda>(key, code). str_in q key) d)"
  by (induction d) auto

section \<open>The classifier\<close>

text \<open>
  C4. \<open>is_value_up_filing\<close> returns true exactly when the lower-cased report title (the
  empty string when the filing has no title) contains the lower-cased form of at least
  one of the six keyword variants as a contiguous substring, at any position: nothing
  but lower-casing and exact substring containment decides the result.
\<close>

theorem is_value_up_filing_iff:
  "is_value_up_filing py filing \<longleftrightarrow>
     (\<exists>kw \<in> set VALUE_UP_KEYWORDS. \<exists>pre post.
        lower py (report_nm_or_empty filing) = pre @ lower py kw @ post)"
  by (simp add: is_value_up_filing_def any_keyword_in_iff str_in_iff)

theorem is_value_up_filing_iff_witness:
  "is_value_up_filing ascii [(''report_nm'', ''Corporate VALUE-UP Plan'')] \<and>
   (\<exists>kw \<in> set VALUE_UP_KEYWORDS. \<exists>pre post.
      lower ascii (report_nm_or_empty [(''report_nm'', ''Corporate VALUE-UP Plan'')])
        = pre @ lower ascii kw @ post) \<and>
   \<not> is_value_up_filing ascii [(''report_nm'', ''Quarterly Report'')] \<and>
   \<not> (\<exists>kw \<in> set VALUE_UP_KEYWORDS. \<exists>pre post.
      lower ascii (report_nm_or_empty [(''report_nm'', ''Quarterly Report'')])
        = pre @ lower ascii kw @ post)"
proof -
  have yes: "is_value_up_filing ascii [(''report_nm'', ''Corporate VALUE-UP Plan'')]"
    by code_simp
  have no: "\<not> is_value_up_filing ascii [(''report_nm'', ''Quarterly Report'')]"
    by code_simp
  from yes no
    is_value_up_filing_iff [of ascii "[(''report_nm'', ''Corporate VALUE-UP Plan'')]"]
    is_value_up_filing_iff [of ascii "[(''report_nm'', ''Quarterly Report'')]"]
  show ?thesis by blast
qed

section \<open>The loops of the run\<close>

lemma first_unseen_matches_Nil: "first_unseen_matches py S [] = []"
  by (simp add: first_unseen_matches_def)

lemma first_unseen_matches_Cons:
  "first_unseen_matches py S (f # fs) =
     (if receipt_id f \<notin> S \<and> is_value_up_filing py f then [f] else [])
     @ first_unseen_matches py (insert (receipt_id f) S) fs"
proof -
  have u: "[0..<length (f # fs)] = 0 # map Suc [0..<length fs]"
    by (simp add: upt_conv_Cons map_Suc_upt del: upt_Suc)
  show ?thesis
    unfolding first_unseen_matches_def u
    by (auto simp: filter_map o_def intro!: arg_cong[where f = "map ((!) fs)"] filter_cong)
qed

lemma first_unseen_matches_append:
  "first_unseen_matches py S (xs @ ys) =
     first_unseen_matches py S xs @ first_unseen_matches py (S \<union> receipt_id ` set xs) ys"
proof (induction xs arbitrary: S)
  case Nil
  then show ?case by (simp add: first_unseen_matches_Nil)
next
  case (Cons x xs)
  have "insert (receipt_id x) S \<union> receipt_id ` set xs = S \<union> receipt_id ` set (x # xs)"
    by auto
  with Cons[of "insert (receipt_id x) S"] show ?case
    by (simp add: first_unseen_matches_Cons)
qed

lemma check_filings_seen:
  "fst (check_filings py fs (seen, new, w)) = seen \<union> receipt_id ` set fs"
proof (induction fs arbitrary: seen new w)
  case Nil
  then show ?case by simp
next
  case (Cons f fs)
  show ?case
    by (auto simp: Cons Let_def receipt_id_def)
qed

lemma check_filings_new:
  "fst (snd (check_filings py fs (seen, new, w))) = new @ first_unseen_matches py seen fs"
proof (induction fs arbitrary: seen new w)
  case Nil
  then show ?case by (simp add: first_unseen_matches_Nil)
next
  case (Cons f fs)
  show ?case
    by (simp add: Cons Let_def first_unseen_matches_Cons receipt_id_def insert_absorb)
qed

lemma check_companies_seen_new:
  "check_companies py env b e cs (seen, new, w) = Inr (seen', new', w') \<Longrightarrow>
     seen' = seen \<union> receipt_id ` set (fetched py env b e cs (seen, new, w)) \<and>
     new' = new @ first_unseen_matches py seen (fetched py env b e cs (seen, new, w))"
proof (induction cs arbitrary: seen new w)
  case Nil
  then show ?case by (simp add: first_unseen_matches_Nil)
next
  case (Cons c cs)
  show ?case
  proof (cases "get_corp_code py env c w")
    case (Inl err)
    with Cons.prems show ?thesis by simp
  next
    case (Inr r)
    obtain corp_code w1 where r: "r = (corp_code, w1)" by (cases r)
    show ?thesis
    proof (cases "if corp_code = Some '''' then None else corp_code")
      case None
      with Cons.prems Inr r
      have "check_companies py env b e cs
              (seen, new, emit (Log WARNING ''Could not find DART corp code'') w1)
            = Inr (seen', new', w')"
        by simp
      from Cons.IH[OF this] None Inr r show ?thesis by simp
    next
      case (Some code)
      define w2 where "w2 = emit (Log INFO ''Checking company'') w1"
      obtain fs w3 where s: "search_filings env code b e w2 = (fs, w3)"
        by (cases "search_filings env code b e w2")
      define w4 where "w4 = emit (Log INFO ''filings returned from DART'') w3"
      obtain seen1 new1 w5 where cf: "check_filings py fs (seen, new, w4) = (seen1, new1, w5)"
        by (cases "check_filings py fs (seen, new, w4)")
      have s1: "seen1 = seen \<union> receipt_id ` set fs"
        using check_filings_seen[of py fs seen new w4] cf by simp
      have n1: "new1 = new @ first_unseen_matches py seen fs"
        using check_filings_new[of py fs seen new w4] cf by simp
      from Cons.prems Inr r Some s cf
      have "check_companies py env b e cs (seen1, new1, w5) = Inr (seen', new', w')"
        by (simp add: w2_def w4_def)
      from Cons.IH[OF this]
      have "seen' = seen1 \<union> receipt_id ` set (fetched py env b e cs (seen1, new1, w5))"
        and "new' = new1 @ first_unseen_matches py seen1 (fetched py env b e cs (seen1, new1, w5))"
        by simp_all
      moreover have "fetched py env b e (c # cs) (seen, new, w)
                       = fs @ fetched py env b e cs (seen1, new1, w5)"
        using Inr r Some s cf by (simp add: w2_def w4_def)
      ultimately show ?thesis
        by (simp add: s1 n1 first_unseen_matches_append Un_assoc image_Un)
    qed
  qed
qed

lemma emit_fields [simp]:
  "seen_file (emit e w) = seen_file w"
  "cache_file (emit e w) = cache_file w"
  "csv_file (emit e w) = csv_file w"
  "trace (emit e w) = trace w @ [e]"
  by (simp_all add: emit_def)

lemma save_to_csv_seen_file:
  "seen_file (final_world (save_to_csv py env fs w)) = seen_file w"
  by (simp add: save_to_csv_def final_world_def Let_def split: option.splits)

lemma send_email_seen_file:
  "seen_file (final_world (send_email py cfg env fs w)) = seen_file w"
  by (simp add: send_email_def final_world_def Let_def split: option.splits)

lemma send_slack_seen_file:
  "seen_file (final_world (send_slack cfg env fs w)) = seen_file w"
  by (simp add: send_slack_def final_world_def Let_def split: option.splits)

lemma final_world_Inr: "r = Inr w' \<Longrightarrow> final_world r = w'"
  by (simp add: final_world_def)

lemma final_world_Inl: "r = Inl (e, w') \<Longrightarrow> final_world r = w'"
  by (simp add: final_world_def)

lemma notify_seen_file:
  "seen_file (final_world (notify py cfg env fs w)) = seen_file w"
proof (cases "fs = []")
  case True
  then show ?thesis by (simp add: notify_def final_world_def)
next
  case False
  define w0 where "w0 = emit (Log INFO ''Found new value-up filings'') w"
  have s0: "seen_file w0 = seen_file w" by (simp add: w0_def)
  show ?thesis
  proof (cases "save_to_csv py env fs w0")
    case (Inl err)
    with False save_to_csv_seen_file[of py env fs w0] s0 show ?thesis
      by (simp add: notify_def w0_def)
  next
    case csv: (Inr w1)
    with save_to_csv_seen_file[of py env fs w0] s0 have s1: "seen_file w1 = seen_file w"
      by (simp add: final_world_def)
    show ?thesis
    proof (cases "send_email py cfg env fs w1")
      case (Inl err)
      with False csv send_email_seen_file[of py cfg env fs w1] s1 show ?thesis
        by (simp add: notify_def w0_def)
    next
      case mail: (Inr w2)
      with send_email_seen_file[of py cfg env fs w1] s1 have s2: "seen_file w2 = seen_file w"
        by (simp add: final_world_def)
      show ?thesis
      proof (cases "send_slack cfg env fs w2")
        case (Inl err)
        with False csv mail send_slack_seen_file[of cfg env fs w2] s2 show ?thesis
          by (simp add: notify_def w0_def)
      next
        case (Inr w3)
        with send_slack_seen_file[of cfg env fs w2] s2 have "seen_file w3 = seen_file w"
          by (simp add: final_world_def)
        with False csv mail Inr show ?thesis
          by (simp add: notify_def w0_def final_world_def)
      qed
    qed
  qed
qed

lemma load_seen_fst: "fst (load_seen w) = loaded_seen w"
  by (simp add: load_seen_def loaded_seen_def split: option.splits)

lemma loaded_seen_emit [simp]: "loaded_seen (emit e w) = loaded_seen w"
  by (simp add: loaded_seen_def)

lemma load_companies_seen [simp]: "loaded_seen (snd (load_companies py env w)) = loaded_seen w"
  by (simp add: load_companies_def split: option.splits)

lemma collect_seen_new:
  assumes "collect py env w = Inr (seen, new_filings, w')"
  shows "seen = loaded_seen w \<union> receipt_id ` set (fetched_in_run py env w)"
    and "new_filings = first_unseen_matches py (loaded_seen w) (fetched_in_run py env w)"
proof -
  obtain companies w1 where lc: "load_companies py env w = (companies, w1)"
    by (cases "load_companies py env w")
  define w2 where "w2 = emit (Log INFO ''Monitoring companies'') w1"
  obtain seen0 w3 where ls: "load_seen w2 = (seen0, w3)"
    by (cases "load_seen w2")
  have s0: "seen0 = loaded_seen w"
    using load_seen_fst[of w2] ls load_companies_seen[of py env w] lc by (simp add: w2_def)
  define e where "e = strftime py ''%Y%m%d'' (now env)"
  define b where "b = strftime py ''%Y%m%d'' (now env - 90 * 86400)"
  have c: "check_companies py env b e companies (seen0, [], w3) = Inr (seen, new_filings, w')"
    using assms lc ls by (simp add: collect_def w2_def e_def b_def)
  have f: "fetched_in_run py env w = fetched py env b e companies (seen0, [], w3)"
    using lc ls by (simp add: fetched_in_run_def w2_def e_def b_def)
  from check_companies_seen_new[OF c] f s0
  show "seen = loaded_seen w \<union> receipt_id ` set (fetched_in_run py env w)"
    and "new_filings = first_unseen_matches py (loaded_seen w) (fetched_in_run py env w)"
    by simp_all
qed

lemma loaded_seen_started [simp]: "loaded_seen (started w) = loaded_seen w"
  by (simp add: started_def)

lemma run_persists:
  assumes "DART_API_KEY cfg \<noteq> ''YOUR_DART_API_KEY_HERE''"
    and "collect py env (started w) = Inr (seen, new_filings, w')"
  shows "seen_file (final_world (run py cfg env w)) = Some seen"
proof -
  have "run py cfg env w = notify py cfg env new_filings (save_seen seen w')"
    using assms by (simp add: run_def)
  then show ?thesis
    by (simp add: notify_seen_file save_seen_def)
qed

section \<open>The Seen Set and the new matches of a run\<close>

text \<open>
  C1 (as amended). When the API key is set and the loop over the companies ends (no
  download of the company list fails), the Seen Set persisted at the end of the run is
  the loaded set together with the receipt identifier of every filing the fetcher
  returned, matching or not. The new matches are the filings whose identifier is not in
  the loaded set, is not the identifier of a filing met earlier in the same run, and
  whose title matches a keyword, in the order met. The set is persisted before the sinks
  run, whatever they do afterwards.
\<close>

theorem run_seen_set_and_new_matches:
  assumes "DART_API_KEY cfg \<noteq> ''YOUR_DART_API_KEY_HERE''"
    and "collect py env (started w) = Inr (seen, new_filings, w')"
  shows "seen = loaded_seen w \<union> receipt_id ` set (fetched_in_run py env (started w)) \<and>
         new_filings
           = first_unseen_matches py (loaded_seen w) (fetched_in_run py env (started w)) \<and>
         seen_file (final_world (run py cfg env w)) = Some seen"
  using collect_seen_new[OF assms(2)] run_persists[OF assms] by simp

text \<open>
  The example of the specification: loaded set \<open>{A1}\<close>, fetched \<open>A1, A2, A3\<close>, only \<open>A3\<close>
  matching.
\<close>

theorem run_seen_set_and_new_matches_witness:
  "fst (snd (projr (collect ascii (demo_env spec_example) (started (demo_world (Some {''A1''}))))))
     = [demo_filing ''A3'' ''Corporate Value-Up Plan''] \<and>
   seen_file (final_world (run ascii demo_config (demo_env spec_example) (demo_world (Some {''A1''}))))
     = Some {''A1'', ''A2'', ''A3''}"
proof -
  let ?E = "demo_env spec_example" and ?W = "demo_world (Some {''A1''})"
  have k: "DART_API_KEY demo_config \<noteq> ''YOUR_DART_API_KEY_HERE''"
    by (simp add: demo_config_def)
  have "isl (collect ascii ?E (started ?W)) = False"
    by code_simp
  then obtain seen new_filings w' where c: "collect ascii ?E (started ?W) = Inr (seen, new_filings, w')"
    by (cases "collect ascii ?E (started ?W)") auto
  have f: "fetched_in_run ascii ?E (started ?W) = spec_example"
    by code_simp
  have l: "loaded_seen ?W = {''A1''}"
    by (simp add: loaded_seen_def demo_world_def)
  have n: "first_unseen_matches ascii {''A1''} spec_example = [demo_filing ''A3'' ''Corporate Value-Up Plan'']"
    by code_simp
  have s: "{''A1''} \<union> receipt_id ` set spec_example = {''A1'', ''A2'', ''A3''}"
    by code_simp
  from run_seen_set_and_new_matches[OF k c] s show ?thesis
    by (simp add: c f l n)
qed

text \<open>
  Without the condition on earlier filings the statement fails. When the company is
  listed twice, its matching filing \<open>A3\<close> is fetched twice and reported once, where the
  filter on the loaded set alone keeps both. Of two filings without \<open>rcept_no\<close>, the first
  not matching and the second matching, the run reports none, where the filter keeps
  the second.
\<close>

theorem claimed_new_matches_counterexample:
  "isl (collect ascii twice_env (started (demo_world None))) = False \<and>
   fst (snd (projr (collect ascii twice_env (started (demo_world None)))))
     = [demo_filing ''A3'' ''Corporate Value-Up Plan''] \<and>
   claimed_new_matches ascii (loaded_seen (demo_world None))
     (fetched_in_run ascii twice_env (started (demo_world None)))
     = [demo_filing ''A3'' ''Corporate Value-Up Plan'',
        demo_filing ''A3'' ''Corporate Value-Up Plan''] \<and>
   isl (collect ascii (demo_env no_receipt_example) (started (demo_world None))) = False \<and>
   fst (snd (projr (collect ascii (demo_env no_receipt_example) (started (demo_world None))))) = [] \<and>
   claimed_new_matches ascii (loaded_seen (demo_world None))
     (fetched_in_run ascii (demo_env no_receipt_example) (started (demo_world None)))
     = [demo_no_receipt ''Corporate Value-Up Plan'']"
  by code_simp

section \<open>Resolving a query against the cache\<close>

text \<open>
  C6 (as amended). \<open>_search_corp_map\<close> first strips the white space around the query and
  lower-cases it. With that key it returns the value of the exact key when present;
  otherwise the value of the first entry, in insertion order, whose key contains it as
  a substring; otherwise not found. \<open>spec_resolve\<close> is this policy without the
  stripping.
\<close>

theorem search_corp_map_strips_then_resolves:
  "search_corp_map py corp_map query = spec_resolve py corp_map (strip py query)"
proof (cases "map_of corp_map (lower py (strip py query))")
  case None
  then have "lower py (strip py query) \<notin> fst ` set corp_map"
    by (simp add: map_of_eq_None_iff)
  with None show ?thesis
    by (simp add: search_corp_map_def spec_resolve_def first_partial_find)
next
  case (Some code)
  then have "lower py (strip py query) \<in> fst ` set corp_map"
    by (metis map_of_eq_None_iff option.distinct(1))
  with Some show ?thesis
    by (simp add: search_corp_map_def spec_resolve_def)
qed

text \<open>
  The example of the specification, with the cache built from the two listed entries,
  and a query with white space around it.
\<close>

theorem search_corp_map_strips_then_resolves_witness:
  "search_corp_map ascii acme_cache ''acme corp'' = Some ''00012345'' \<and>
   search_corp_map ascii acme_cache ''098765'' = Some ''00098765'' \<and>
   search_corp_map ascii acme_cache ''nonexistent'' = None \<and>
   search_corp_map ascii acme_cache ''  Beta '' = Some ''00098765''"
proof -
  have "spec_resolve ascii acme_cache (strip ascii ''acme corp'') = Some ''00012345''"
    and "spec_resolve ascii acme_cache (strip ascii ''098765'') = Some ''00098765''"
    and "spec_resolve ascii acme_cache (strip ascii ''nonexistent'') = None"
    and "spec_resolve ascii acme_cache (strip ascii ''  Beta '') = Some ''00098765''"
    by code_simp+
  then show ?thesis
    by (simp add: search_corp_map_strips_then_resolves)
qed

text \<open>
  Without the stripping the policy fails on a query that starts with a space: the
  lower-cased query is no key and is contained in none, yet the program finds the code.
\<close>

theorem spec_resolve_counterexample:
  "search_corp_map ascii acme_cache '' acme corp'' = Some ''00012345'' \<and>
   spec_resolve ascii acme_cache '' acme corp'' = None"
  by code_simp

section \<open>The placeholder API key\<close>

text \<open>
  C8. When \<open>DART_API_KEY\<close> is the placeholder, \<open>run\<close> returns after its three opening log
  lines and one error line. The files are as they were and the trace holds nothing
  else: the company list is not loaded, the Seen Set is neither read nor written,
  nothing is fetched and no sink runs.
\<close>

theorem run_aborts_on_placeholder_key:
  "DART_API_KEY cfg = ''YOUR_DART_API_KEY_HERE'' \<Longrightarrow>
     run py cfg env w =
       Inr (w\<lparr>trace := trace w @
              [Log INFO ''='', Log INFO ''starting run'', Log INFO ''='',
               Log ERROR ''Please set your DART_API_KEY'']\<rparr>)"
  by (simp add: run_def started_def emit_def)

theorem run_aborts_on_placeholder_key_witness:
  "run ascii (demo_config\<lparr>DART_API_KEY := ''YOUR_DART_API_KEY_HERE''\<rparr>)
       (demo_env spec_example) (demo_world (Some {''A1''}))
     = Inr \<lparr> seen_file = Some {''A1''}, cache_file = None, csv_file = None,
             trace = [Log INFO ''='', Log INFO ''starting run'', Log INFO ''='',
                      Log ERROR ''Please set your DART_API_KEY''] \<rparr>"
  using run_aborts_on_placeholder_key
          [of "demo_config\<lparr>DART_API_KEY := ''YOUR_DART_API_KEY_HERE''\<rparr>"
              ascii "demo_env spec_example" "demo_world (Some {''A1''})"]
  by (simp add: demo_world_def)

section \<open>Fetching the two categories\<close>

text \<open>
  C7. \<open>search_filings\<close> never raises. Its result is what the regular category contributes
  followed by what the voluntary category contributes, and both requests are always
  issued. A category whose request, status check or decoding raises contributes nothing
  and logs an error; one that answers with status \<open>013\<close> contributes nothing and logs
  nothing; one that answers with any other status than \<open>000\<close> contributes nothing and
  logs a warning. What one category contributes depends on its own answer only.
\<close>

theorem search_filings_by_category:
  "search_filings env corp_code bgn_de end_de w =
     (category_filings env corp_code bgn_de end_de ''A''
        @ category_filings env corp_code bgn_de end_de ''B'',
      w\<lparr>trace := trace w
           @ category_events env corp_code bgn_de end_de ''A''
           @ category_events env corp_code bgn_de end_de ''B''\<rparr>) \<and>
   (\<forall>ty data. list_json env corp_code bgn_de end_de ty = Body data \<and> status data = Some ''013''
      \<longrightarrow> category_filings env corp_code bgn_de end_de ty = [] \<and>
          category_events env corp_code bgn_de end_de ty = [Get_list corp_code bgn_de end_de ty]) \<and>
   (\<forall>ty data. list_json env corp_code bgn_de end_de ty = Body data \<and>
        status data \<noteq> Some ''000'' \<and> status data \<noteq> Some ''013''
      \<longrightarrow> category_filings env corp_code bgn_de end_de ty = [] \<and>
          category_events env corp_code bgn_de end_de ty
            = [Get_list corp_code bgn_de end_de ty, Log WARNING ''DART API returned status'']) \<and>
   (\<forall>ty. list_json env corp_code bgn_de end_de ty = Raises
      \<longrightarrow> category_filings env corp_code bgn_de end_de ty = [] \<and>
          category_events env corp_code bgn_de end_de ty
            = [Get_list corp_code bgn_de end_de ty, Log ERROR ''Error searching filings''])"
proof -
  have "search_filings env corp_code bgn_de end_de w =
     (category_filings env corp_code bgn_de end_de ''A''
        @ category_filings env corp_code bgn_de end_de ''B'',
      w\<lparr>trace := trace w
           @ category_events env corp_code bgn_de end_de ''A''
           @ category_events env corp_code bgn_de end_de ''B''\<rparr>)"
    by (simp add: search_filings_def category_filings_def category_events_def emit_def Let_def
           split: response.splits option.splits)
  then show ?thesis
    by (simp add: category_filings_def category_events_def)
qed

text \<open>
  The regular category raising, the regular category answering with an error status,
  and the voluntary category answering "no results".
\<close>

theorem search_filings_by_category_witness:
  "fst (search_filings flaky_env ''00012345'' ''20240101'' ''20240331'' (demo_world None))
     = spec_example \<and>
   fst (search_filings failing_env ''00012345'' ''20240101'' ''20240331'' (demo_world None))
     = spec_example \<and>
   search_filings (demo_env spec_example) ''00012345'' ''20240101'' ''20240331'' (demo_world None)
     = (spec_example,
        (demo_world None)\<lparr>trace :=
           [Get_list ''00012345'' ''20240101'' ''20240331'' ''A'',
            Get_list ''00012345'' ''20240101'' ''20240331'' ''B'']\<rparr>)"
proof -
  have a: "category_filings flaky_env ''00012345'' ''20240101'' ''20240331'' ''A'' = []"
    and b: "category_filings flaky_env ''00012345'' ''20240101'' ''20240331'' ''B'' = spec_example"
    and c: "category_filings failing_env ''00012345'' ''20240101'' ''20240331'' ''A'' = []"
    and d: "category_filings failing_env ''00012345'' ''20240101'' ''20240331'' ''B'' = spec_example"
    and e: "category_filings (demo_env spec_example) ''00012345'' ''20240101'' ''20240331'' ''A''
              = spec_example"
    and f: "category_filings (demo_env spec_example) ''00012345'' ''20240101'' ''20240331'' ''B'' = []"
    and g: "category_events (demo_env spec_example) ''00012345'' ''20240101'' ''20240331'' ''A''
              = [Get_list ''00012345'' ''20240101'' ''20240331'' ''A'']"
    and h: "category_events (demo_env spec_example) ''00012345'' ''20240101'' ''20240331'' ''B''
              = [Get_list ''00012345'' ''20240101'' ''20240331'' ''B'']"
    by code_simp+
  have t: "trace (demo_world None) = []"
    by (simp add: demo_world_def)
  from search_filings_by_category
         [of flaky_env "''00012345''" "''20240101''" "''20240331''" "demo_world None"]
       search_filings_by_category
         [of failing_env "''00012345''" "''20240101''" "''20240331''" "demo_world None"]
       search_filings_by_category
         [of "demo_env spec_example" "''00012345''" "''20240101''" "''20240331''" "demo_world None"]
  show ?thesis
    by (simp add: a b c d e f g h t)
qed

section \<open>Filings without a receipt identifier\<close>

lemma first_unseen_matches_unseen:
  "g \<in> set (first_unseen_matches py S fs) \<Longrightarrow> receipt_id g \<notin> S"
  by (auto simp: first_unseen_matches_def)



lemma no_receipt_id: "no_receipt f \<Longrightarrow> receipt_id f = ''''"
  by (simp add: no_receipt_def receipt_id_def get_or_def)

text \<open>
  C10. A filing record without \<open>rcept_no\<close> is recorded in the Seen Set under the empty
  string. Once one such filing has been processed the empty string is in the Seen Set,
  and it is in the set the run persists. From then on every filing without \<open>rcept_no\<close> is
  skipped, whatever its title: later in the same loop, later in the same run (none is
  among the new matches that follow), and in any later run that loads a set holding the
  empty string (none is among its new matches).
\<close>

theorem filings_without_receipt_number:
  "(no_receipt f \<longrightarrow> receipt_id f = '''') \<and>
   (no_receipt f \<and> f \<in> set fs \<longrightarrow> '''' \<in> fst (check_filings py fs (seen, new, w))) \<and>
   ('''' \<in> seen \<and> no_receipt g \<longrightarrow>
      check_filings py (g # rest) (seen, new, w) =
        check_filings py rest
          (seen, new, emit (Log INFO ''already seen - skipping'') (emit (Log INFO ''filing'') w))) \<and>
   (DART_API_KEY cfg \<noteq> ''YOUR_DART_API_KEY_HERE'' \<and>
    collect py env (started w0) = Inr (seen', new', w') \<longrightarrow>
      seen_file (final_world (run py cfg env w0)) = Some seen' \<and>
      ((\<exists>f \<in> set (fetched_in_run py env (started w0)). no_receipt f) \<longrightarrow> '''' \<in> seen') \<and>
      ('''' \<in> loaded_seen w0 \<longrightarrow> (\<forall>g \<in> set new'. \<not> no_receipt g)) \<and>
      (\<forall>pre f post. fetched_in_run py env (started w0) = pre @ f # post \<and> no_receipt f \<longrightarrow>
         (\<exists>later. new' = first_unseen_matches py (loaded_seen w0) (pre @ [f]) @ later \<and>
                  (\<forall>g \<in> set later. \<not> no_receipt g))))"
proof (intro conjI impI)
  show "receipt_id f = ''''" if "no_receipt f"
    using that by (rule no_receipt_id)
next
  assume "no_receipt f \<and> f \<in> set fs"
  then have "'''' \<in> receipt_id ` set fs"
    using no_receipt_id[of f] by force
  then show "'''' \<in> fst (check_filings py fs (seen, new, w))"
    by (simp add: check_filings_seen)
next
  assume "'''' \<in> seen \<and> no_receipt g"
  then show "check_filings py (g # rest) (seen, new, w) =
        check_filings py rest
          (seen, new, emit (Log INFO ''already seen - skipping'') (emit (Log INFO ''filing'') w))"
    by (simp add: no_receipt_def get_or_def)
next
  assume a: "DART_API_KEY cfg \<noteq> ''YOUR_DART_API_KEY_HERE'' \<and>
    collect py env (started w0) = Inr (seen', new', w')"
  then show "seen_file (final_world (run py cfg env w0)) = Some seen'"
    using run_persists by blast
next
  assume a: "DART_API_KEY cfg \<noteq> ''YOUR_DART_API_KEY_HERE'' \<and>
    collect py env (started w0) = Inr (seen', new', w')"
  assume "\<exists>f \<in> set (fetched_in_run py env (started w0)). no_receipt f"
  then have "'''' \<in> receipt_id ` set (fetched_in_run py env (started w0))"
    using no_receipt_id by force
  with a collect_seen_new(1)[of py env "started w0" seen' new' w'] show "'''' \<in> seen'"
    by simp
next
  assume a: "DART_API_KEY cfg \<noteq> ''YOUR_DART_API_KEY_HERE'' \<and>
    collect py env (started w0) = Inr (seen', new', w')"
  assume e: "'''' \<in> loaded_seen w0"
  have n: "new' = first_unseen_matches py (loaded_seen w0) (fetched_in_run py env (started w0))"
    using a collect_seen_new(2)[of py env "started w0" seen' new' w'] by simp
  show "\<forall>g \<in> set new'. \<not> no_receipt g"
  proof
    fix g assume "g \<in> set new'"
    then have "receipt_id g \<notin> loaded_seen w0"
      using n first_unseen_matches_unseen by blast
    with e show "\<not> no_receipt g"
      using no_receipt_id by force
  qed
next
  assume a: "DART_API_KEY cfg \<noteq> ''YOUR_DART_API_KEY_HERE'' \<and>
    collect py env (started w0) = Inr (seen', new', w')"
  have n: "new' = first_unseen_matches py (loaded_seen w0) (fetched_in_run py env (started w0))"
    using a collect_seen_new(2)[of py env "started w0" seen' new' w'] by simp
  show "\<forall>pre f post. fetched_in_run py env (started w0) = pre @ f # post \<and> no_receipt f \<longrightarrow>
         (\<exists>later. new' = first_unseen_matches py (loaded_seen w0) (pre @ [f]) @ later \<and>
                  (\<forall>g \<in> set later. \<not> no_receipt g))"
  proof (intro allI impI)
    fix pre f post
    assume h: "fetched_in_run py env (started w0) = pre @ f # post \<and> no_receipt f"
    define S1 where "S1 = loaded_seen w0 \<union> receipt_id ` set (pre @ [f])"
    define later where "later = first_unseen_matches py S1 post"
    have "pre @ f # post = (pre @ [f]) @ post" by simp
    then have "new' = first_unseen_matches py (loaded_seen w0) (pre @ [f]) @ later"
      using n h first_unseen_matches_append[of py "loaded_seen w0" "pre @ [f]" post]
      by (simp add: later_def S1_def)
    moreover have "'''' \<in> S1"
      using h no_receipt_id[of f] by (simp add: S1_def)
    then have "\<forall>g \<in> set later. \<not> no_receipt g"
      using first_unseen_matches_unseen[of _ py S1 post] no_receipt_id
      by (force simp: later_def)
    ultimately show "\<exists>later. new' = first_unseen_matches py (loaded_seen w0) (pre @ [f]) @ later \<and>
                  (\<forall>g \<in> set later. \<not> no_receipt g)"
      by blast
  qed
qed

text \<open>
  Two filings without \<open>rcept_no\<close>, the second with a matching title: it is skipped, the
  run reports nothing and persists \<open>{""}\<close>.
\<close>

theorem filings_without_receipt_number_witness:
  "receipt_id (demo_no_receipt ''Corporate Value-Up Plan'') = '''' \<and>
   is_value_up_filing ascii (demo_no_receipt ''Corporate Value-Up Plan'') \<and>
   '''' \<in> fst (check_filings ascii no_receipt_example ({}, [], demo_world None)) \<and>
   fst (snd (check_filings ascii [demo_no_receipt ''Corporate Value-Up Plan'']
               ({''''}, [], demo_world None))) = [] \<and>
   seen_file (final_world (run ascii demo_config (demo_env no_receipt_example) (demo_world None)))
     = Some {''''} \<and>
   fst (snd (projr (collect ascii (demo_env no_receipt_example) (started (demo_world None))))) = []"
proof -
  let ?g = "demo_no_receipt ''Corporate Value-Up Plan''"
  let ?E = "demo_env no_receipt_example" and ?W = "demo_world None"
  have nr: "no_receipt ?g"
    by code_simp
  have m: "is_value_up_filing ascii ?g"
    by code_simp
  have mem: "?g \<in> set no_receipt_example"
    by (simp add: no_receipt_example_def)
  have k: "DART_API_KEY demo_config \<noteq> ''YOUR_DART_API_KEY_HERE''"
    by (simp add: demo_config_def)
  have "isl (collect ascii ?E (started ?W)) = False"
    by code_simp
  then obtain seen' new' w' where c: "collect ascii ?E (started ?W) = Inr (seen', new', w')"
    by (cases "collect ascii ?E (started ?W)") auto
  have f: "fetched_in_run ascii ?E (started ?W) = no_receipt_example"
    by code_simp
  have l: "loaded_seen ?W = {}"
    by (simp add: loaded_seen_def demo_world_def)
  have ids: "receipt_id ` set no_receipt_example = {''''}"
    by code_simp
  have fum: "first_unseen_matches ascii {} no_receipt_example = []"
    by code_simp
  have s: "seen' = {''''}" and n: "new' = []"
    using collect_seen_new[OF c] f l ids fum by simp_all
  have e: "'''' \<in> {''''}"
    by simp
  from filings_without_receipt_number
         [of ?g no_receipt_example ascii "{}" "[]" ?W ?g "[]" demo_config ?E ?W seen' new' w']
       nr mem k c s
  have one: "receipt_id ?g = ''''"
    and two: "'''' \<in> fst (check_filings ascii no_receipt_example ({}, [], ?W))"
    and four: "seen_file (final_world (run ascii demo_config ?E ?W)) = Some {''''}"
    by simp_all
  from filings_without_receipt_number
         [of ?g no_receipt_example ascii "{''''}" "[]" ?W ?g "[]" demo_config ?E ?W seen' new' w']
       nr e
  have three: "fst (snd (check_filings ascii [?g] ({''''}, [], ?W))) = []"
    by simp
  from one two three four m c n show ?thesis
    by simp
qed

section \<open>The CSV ledger\<close>

lemma drop_duplicates_keys:
  "key ` set (drop_duplicates key rs) = key ` set rs"
  by (induction key rs rule: drop_duplicates.induct) auto

lemma drop_duplicates_subset:
  "set (drop_duplicates key rs) \<subseteq> set rs"
  by (induction key rs rule: drop_duplicates.induct) auto

lemma drop_duplicates_distinct:
  "distinct (map key (drop_duplicates key rs))"
proof (induction key rs rule: drop_duplicates.induct)
  case (1 key)
  then show ?case by simp
next
  case (2 key r rs)
  have "key r \<notin> key ` set (drop_duplicates key (filter (\<lambda>x. key x \<noteq> key r) rs))"
    by (auto simp: drop_duplicates_keys)
  with 2 show ?case by simp
qed

lemma drop_duplicates_length:
  "length (drop_duplicates key rs) = card (key ` set rs)"
proof -
  have "card (set (map key (drop_duplicates key rs))) = length (map key (drop_duplicates key rs))"
    by (rule distinct_card) (rule drop_duplicates_distinct)
  then show ?thesis
    by (simp add: drop_duplicates_keys)
qed

lemma drop_duplicates_id:
  "distinct (map key rs) \<Longrightarrow> drop_duplicates key rs = rs"
proof (induction key rs rule: drop_duplicates.induct)
  case (1 key)
  then show ?case by simp
next
  case (2 key r rs)
  from "2.prems" have nk: "key r \<notin> key ` set rs" and d: "distinct (map key rs)"
    by simp_all
  have "\<forall>x \<in> set rs. key x \<noteq> key r"
    using nk by (metis image_eqI)
  then have f: "filter (\<lambda>x. key x \<noteq> key r) rs = rs"
    by (simp add: filter_True)
  with "2.IH" d show ?case by simp
qed

lemma notify_nothing_new:
  "notify py cfg env [] w =
     Inr (emit (Log INFO ''Done'')
            (emit (Log INFO ''No new value-up plan filings found this week'') w))"
  by (simp add: notify_def)

text \<open>
  C3. The deduplication of \<open>save_to_csv\<close> compares the cells of the rows read back from
  the file with the strings of the new rows. DART receipt numbers are strings of 14
  digits, which \<open>pd.read_csv\<close> reads back as integers, and an integer is not the duplicate
  of a string. Writing a filing to a ledger that does not exist leaves one row; writing
  the same filing again leaves two rows with the same receipt number, where one is
  expected. A run reaches this when \<open>seen_filings.json\<close> is lost and the ledger is kept.
\<close>

theorem csv_dedup_misses_reread_numbers:
  "map col_receipt_no
     (ledger (final_world (save_to_csv ascii (demo_env []) [dart_filing] (demo_world None))))
     = [''20240102000123''] \<and>
   map col_receipt_no
     (ledger (final_world (save_to_csv ascii (demo_env []) [dart_filing]
        (final_world (save_to_csv ascii (demo_env []) [dart_filing] (demo_world None))))))
     = [''20240102000123'', ''20240102000123''] \<and>
   isl (save_to_csv ascii (demo_env []) [dart_filing]
        (final_world (save_to_csv ascii (demo_env []) [dart_filing] (demo_world None)))) = False \<and>
   map col_receipt_no
     (ledger (final_world (run ascii demo_config (demo_env [dart_filing])
        ((final_world (run ascii demo_config (demo_env [dart_filing]) (demo_world None)))
           \<lparr>seen_file := None\<rparr>))))
     = [''20240102000123'', ''20240102000123'']"
  by code_simp

section \<open>What a run delivers\<close>

lemma emailed_append [simp]: "emailed (xs @ ys) = emailed xs @ emailed ys"
  by (simp add: emailed_def)

lemma posted_append [simp]: "posted (xs @ ys) = posted xs @ posted ys"
  by (simp add: posted_def)

lemma emailed_quiet: "\<forall>e \<in> set evs. \<not> is_notification e \<Longrightarrow> emailed evs = []"
proof (induction evs)
  case Nil
  then show ?case by (simp add: emailed_def)
next
  case (Cons e evs)
  then have "emailed_by e = []" by (cases e) simp_all
  with Cons show ?case by (simp add: emailed_def)
qed

lemma posted_quiet: "\<forall>e \<in> set evs. \<not> is_notification e \<Longrightarrow> posted evs = []"
proof (induction evs)
  case Nil
  then show ?case by (simp add: posted_def)
next
  case (Cons e evs)
  then have "posted_by e = []" by (cases e) simp_all
  with Cons show ?case by (simp add: posted_def)
qed

lemma quiet_deliveries:
  "quiet w w' \<Longrightarrow> emailed (trace w') = emailed (trace w) \<and> posted (trace w') = posted (trace w)"
  by (auto simp: quiet_def emailed_quiet posted_quiet)

lemma quiet_refl [simp]: "quiet w w"
  by (simp add: quiet_def)



lemma quiet_trace_eq: "trace w1 = trace w2 \<Longrightarrow> quiet w w1 \<Longrightarrow> quiet w w2"
  by (simp add: quiet_def)































section \<open>A sink that fails\<close>

text \<open>
  C2. \<open>save_to_csv\<close> has no handler. When the ledger cannot be written, the run that found
  \<open>A3\<close> ends with the exception of the CSV sink: neither the e-mail sink nor the chat
  sink is invoked, although both are configured. The Seen Set was persisted before, so
  the next run, in which everything works, does not notify either.
\<close>

theorem csv_failure_aborts_run:
  "run ascii demo_config read_only_env (demo_world None)
     = Inl (Ledger_write_failed,
            final_world (run ascii demo_config read_only_env (demo_world None))) \<and>
   filter is_notification
     (trace (final_world (run ascii demo_config read_only_env (demo_world None)))) = [] \<and>
   seen_file (final_world (run ascii demo_config read_only_env (demo_world None)))
     = Some {''A3''} \<and>
   filter is_notification
     (trace (final_world (run ascii demo_config (demo_env [value_up_a3])
        (final_world (run ascii demo_config read_only_env (demo_world None)))))) = []"
  by code_simp

section \<open>The e-mail sink without configuration, and the chat sink after it\<close>

lemma send_slack_returns:
  "SLACK_WEBHOOK cfg = '''' \<or> subscripts fs = None \<Longrightarrow>
     send_slack cfg env fs w = Inr (w\<lparr>trace := trace w @ chat_events cfg env fs\<rparr>)"
  by (auto simp: send_slack_def chat_events_def emit_def Let_def)

text \<open>
  When the sender, the password or the recipient setting is empty, \<open>send_email\<close> returns
  at once: it logs one line and opens no SMTP session, for every list of filings. In a
  run, once the CSV sink before it has returned, what follows is the chat sink, invoked
  with the same list, and the final log line. The chat sink returns when no webhook is
  configured or every new filing has the three fields its message formats, and the run
  then completes normally.
\<close>

lemma send_email_not_configured:
  assumes "EMAIL_SENDER cfg = '''' \<or> EMAIL_PASSWORD cfg = '''' \<or> EMAIL_TO cfg = ''''"
  shows
   "send_email py cfg env fs w = Inr (emit (Log INFO ''Email not configured - skipping'') w) \<and>
    (\<forall>w1. fs \<noteq> [] \<and>
          save_to_csv py env fs (emit (Log INFO ''Found new value-up filings'') w) = Inr w1 \<longrightarrow>
       notify py cfg env fs w =
         (case send_slack cfg env fs (emit (Log INFO ''Email not configured - skipping'') w1) of
            Inl err \<Rightarrow> Inl err
          | Inr w3 \<Rightarrow> Inr (emit (Log INFO ''Done'') w3)) \<and>
       (SLACK_WEBHOOK cfg = '''' \<or> subscripts fs = None \<longrightarrow>
          notify py cfg env fs w =
            Inr (w1\<lparr>trace := trace w1 @ [Log INFO ''Email not configured - skipping'']
                                  @ chat_events cfg env fs @ [Log INFO ''Done'']\<rparr>))) \<and>
    (\<forall>w0 seen w' w1.
       DART_API_KEY cfg \<noteq> ''YOUR_DART_API_KEY_HERE'' \<and>
       collect py env (started w0) = Inr (seen, fs, w') \<and> fs \<noteq> [] \<and>
       save_to_csv py env fs (emit (Log INFO ''Found new value-up filings'') (save_seen seen w'))
         = Inr w1 \<and>
       (SLACK_WEBHOOK cfg = '''' \<or> subscripts fs = None) \<longrightarrow>
       run py cfg env w0 =
         Inr (w1\<lparr>trace := trace w1 @ [Log INFO ''Email not configured - skipping'']
                               @ chat_events cfg env fs @ [Log INFO ''Done'']\<rparr>))"
proof -
  have mail: "\<And>w. send_email py cfg env fs w
                  = Inr (emit (Log INFO ''Email not configured - skipping'') w)"
    using assms by (auto simp: send_email_def)
  have step: "notify py cfg env fs w =
         (case send_slack cfg env fs (emit (Log INFO ''Email not configured - skipping'') w1) of
            Inl err \<Rightarrow> Inl err
          | Inr w3 \<Rightarrow> Inr (emit (Log INFO ''Done'') w3))"
    if "fs \<noteq> []"
      and "save_to_csv py env fs (emit (Log INFO ''Found new value-up filings'') w) = Inr w1"
    for w w1
    using that by (simp add: notify_def mail)
  have fin: "notify py cfg env fs w =
            Inr (w1\<lparr>trace := trace w1 @ [Log INFO ''Email not configured - skipping'']
                                  @ chat_events cfg env fs @ [Log INFO ''Done'']\<rparr>)"
    if "fs \<noteq> []"
      and "save_to_csv py env fs (emit (Log INFO ''Found new value-up filings'') w) = Inr w1"
      and "SLACK_WEBHOOK cfg = '''' \<or> subscripts fs = None"
    for w w1
    by (simp add: step[OF that(1,2)] send_slack_returns[OF that(3)] emit_def)
  have run: "run py cfg env w0 =
         Inr (w1\<lparr>trace := trace w1 @ [Log INFO ''Email not configured - skipping'']
                               @ chat_events cfg env fs @ [Log INFO ''Done'']\<rparr>)"
    if "DART_API_KEY cfg \<noteq> ''YOUR_DART_API_KEY_HERE''"
      and "collect py env (started w0) = Inr (seen, fs, w')" and "fs \<noteq> []"
      and "save_to_csv py env fs (emit (Log INFO ''Found new value-up filings'') (save_seen seen w'))
             = Inr w1"
      and "SLACK_WEBHOOK cfg = '''' \<or> subscripts fs = None"
    for w0 seen w' w1
    using that(1,2) fin[OF that(3,4,5)] by (simp add: run_def)
  from mail step fin run show ?thesis
    by blast
qed

text \<open>
  C9. With the e-mail password empty \<open>send_email\<close> is a no-operation and the run goes on to
  the chat sink, but the run does not always complete normally: \<open>send_slack\<close> subscripts
  \<open>f['corp_name']\<close> outside its \<open>try\<close>. With a webhook configured and a new filing without
  \<open>corp_name\<close>, which \<open>save_to_csv\<close> accepts (\<open>f.get("corp_name", "")\<close>), the run ends with
  \<open>KeyError\<close> after the ledger was written and the e-mail was skipped.
\<close>

theorem chat_key_error_aborts_run:
  "run ascii no_password_config (demo_env [no_name_filing]) (demo_world None)
     = Inl (KeyError ''corp_name'',
            final_world (run ascii no_password_config (demo_env [no_name_filing]) (demo_world None))) \<and>
   trace (final_world (run ascii no_password_config (demo_env [no_name_filing]) (demo_world None)))
     = trace (started (demo_world None)) @
       [Read_companies_file, Log INFO ''Monitoring companies'',
        Log INFO ''Downloading company list from DART'', Get_corp_codes, Write_cache_file,
        Log INFO ''Cached companies'', Log INFO ''Checking company'',
        Get_list ''00012345'' ''%Y%m%d'' ''%Y%m%d'' ''A'',
        Get_list ''00012345'' ''%Y%m%d'' ''%Y%m%d'' ''B'',
        Log INFO ''filings returned from DART'', Log INFO ''filing'',
        Log INFO ''NEW value-up filing'', Write_seen_file {''A5''},
        Log INFO ''Found new value-up filings'', Write_ledger, Log INFO ''Saved new rows'',
        Log INFO ''Email not configured - skipping'']"
  by code_simp

end
